theory Spec2Isabelle
  imports Main "HOL-Library.Sublist" "HOL-Library.Word"
begin

section \<open>Data model of library_proj.py\<close>

text \<open>
  A Python \<open>str\<close> is a sequence of Unicode code points; it is modelled as a list of
  natural numbers. The Cyrillic literals of the source are written out code point by
  code point.
\<close>

type_synonym str = "nat list"

text \<open>
  The values the standard JSON decoder can produce, which are also the values a field of
  a \<open>Books\<close> object loaded from the file can hold. A float is carried as its 64-bit
  pattern; a \<open>dict\<close> is the list of its items in insertion order.
\<close>

datatype pyval =
    PNone
  | PBool bool
  | PInt int
  | PFloat "64 word"
  | PStr str
  | PList "pyval list"
  | PDict "(str \<times> pyval) list"

definition is_str :: "pyval \<Rightarrow> bool" where
  "is_str v = (case v of PStr t \<Rightarrow> True | _ \<Rightarrow> False)"

text \<open>The exceptions that can leave the methods of \<open>Books_Library\<close>.\<close>

datatype error =
    UnboundLocalError
  | AttributeError
  | TypeError
  | JSONDecodeError
  | UnicodeDecodeError
  | UnicodeEncodeError
  | FileNotFoundError
  | PermissionError
  | ValueError

text \<open>
  \<open>class Books\<close>: five attributes, assigned by \<open>__init__\<close> in this order, with no
  validation. The attribute \<open>id\<close> is named \<open>book_id\<close> here.
\<close>

record Books =
  book_id :: pyval
  title :: pyval
  author :: pyval
  year :: pyval
  status :: pyval

text \<open>
  Objects of class \<open>Books\<close> have identity: the class defines neither \<open>__eq__\<close> nor
  \<open>__hash__\<close>, and \<open>change_status\<close> mutates an object in place. So the list
  \<open>self.books\<close> holds references, and a heap maps every reference to the object it
  denotes. References below \<open>next_ref\<close> are the allocated ones.

  The state also holds the file system and what has been printed. \<open>fs\<close> is the content
  stored under each path, if any. \<open>write_error\<close> is the exception that opening a path
  for writing raises, if any (\<open>FileNotFoundError\<close> when the directory of the path is
  missing, \<open>PermissionError\<close>); a path that opens is truncated and written.
\<close>

type_synonym ref = nat

record 'f state =
  file_name :: str
  books :: "ref list"
  heap :: "ref \<Rightarrow> Books"
  next_ref :: ref
  fs :: "str \<Rightarrow> 'f option"
  write_error :: "str \<Rightarrow> error option"
  stdout :: "str list"

text \<open>
  The standard library's JSON codec is not part of the repository: it is a parameter.
  \<open>json_dump\<close> is \<open>json.dump(_, file, indent=2, ensure_ascii=False)\<close> on a file just
  opened for writing: it gives the content written, or the exception raised on the way
  (\<open>UnicodeEncodeError\<close> on a string with a lone surrogate) together with the truncated
  content the file is left with. \<open>json_load\<close> is \<open>json.load(file)\<close> on a content, which
  raises (\<open>JSONDecodeError\<close>, or \<open>UnicodeDecodeError\<close> from reading) or returns a value.
\<close>

record 'f codec =
  json_dump :: "pyval \<Rightarrow> (error \<times> 'f) + 'f"
  json_load :: "'f \<Rightarrow> error + pyval"

subsection \<open>String literals of the source\<close>

definition k_id :: str where
  "k_id = [105, 100]"

definition k_title :: str where
  "k_title = [116, 105, 116, 108, 101]"

definition k_author :: str where
  "k_author = [97, 117, 116, 104, 111, 114]"

definition k_year :: str where
  "k_year = [121, 101, 97, 114]"

definition k_status :: str where
  "k_status = [115, 116, 97, 116, 117, 115]"

text \<open>The literal \<open>"1"\<close>.\<close>

definition str_1 :: str where
  "str_1 = [49]"

text \<open>The status "V nalichii" (available), line 163.\<close>

definition status_available :: str where
  "status_available = [1042, 32, 1085, 1072, 1083, 1080, 1095, 1080, 1080]"

text \<open>The status "Vydana" (checked out), line 165.\<close>

definition status_checked_out :: str where
  "status_checked_out = [1042, 1099, 1076, 1072, 1085, 1072]"

text \<open>"Status izmenyon" (status changed), line 166.\<close>

definition msg_status_changed :: str where
  "msg_status_changed =
     [1057, 1090, 1072, 1090, 1091, 1089, 32, 1080, 1079, 1084, 1077, 1085, 1105, 1085]"

text \<open>"Kniga ne naidena" (book not found), line 170.\<close>

definition msg_book_not_found :: str where
  "msg_book_not_found =
     [1050, 1085, 1080, 1075, 1072, 32, 1085, 1077, 32, 1085, 1072, 1081, 1076, 1077, 1085,
      1072]"

text \<open>"Kniga uspeshno udalena" and a newline (book deleted), line 112.\<close>

definition msg_deleted :: str where
  "msg_deleted =
     [1050, 1085, 1080, 1075, 1072, 32, 1091, 1089, 1087, 1077, 1096, 1085, 1086, 32, 1091,
      1076, 1072, 1083, 1077, 1085, 1072, 10]"

text \<open>
  The f-string of line 108: "Oshibka: Kniga s ID ", the identifier, " ne naidena" and a
  newline.
\<close>

definition msg_delete_not_found :: "str \<Rightarrow> str" where
  "msg_delete_not_found id_delete =
     [1054, 1096, 1080, 1073, 1082, 1072, 58, 32, 1050, 1085, 1080, 1075, 1072, 32, 1089, 32,
      73, 68, 32]
     @ id_delete
     @ [32, 1085, 1077, 32, 1085, 1072, 1081, 1076, 1077, 1085, 1072, 10]"

text \<open>"Kniga uspeshno dobavlena" and a newline (book added), line 92.\<close>

definition msg_added :: str where
  "msg_added =
     [1050, 1085, 1080, 1075, 1072, 32, 1091, 1089, 1087, 1077, 1096, 1085, 1086, 32, 1076,
      1086, 1073, 1072, 1074, 1083, 1077, 1085, 1072, 10]"

text \<open>The diagnostic of line 53 (database file could not be read, check its content).\<close>

definition msg_decode_error :: str where
  "msg_decode_error =
     [1054, 1096, 1080, 1073, 1082, 1072, 32, 1095, 1090, 1077, 1085, 1080, 1103, 32, 1092,
      1072, 1081, 1083, 1072, 32, 1073, 1072, 1079, 1099, 32, 1076, 1072, 1085, 1085, 1099,
      1093, 46, 32, 1055, 1088, 1086, 1074, 1077, 1088, 1100, 1090, 1077, 32, 1082, 1086,
      1088, 1088, 1077, 1082, 1090, 1085, 1086, 1089, 1090, 1100, 32, 1089, 1086, 1076, 1077,
      1088, 1078, 1080, 1084, 1086, 1075, 1086, 46]"

section \<open>The methods of \<open>Books_Library\<close>\<close>

subsection \<open>\<open>save_book_database\<close>\<close>

text \<open>Lines 67-73: one dict per book, keys in the order written.\<close>

definition book_dict :: "Books \<Rightarrow> pyval" where
  "book_dict book =
     PDict [(k_id, book_id book), (k_title, title book), (k_author, author book),
            (k_year, year book), (k_status, status book)]"

definition book_data :: "'f state \<Rightarrow> pyval" where
  "book_data s = PList (map (\<lambda>book. book_dict (heap s book)) (books s))"

text \<open>
  Lines 75-76. \<open>open(self.file_name, "w")\<close> raises and leaves the file as it was, or
  truncates it; then \<open>json.dump\<close> writes the encoded list, or raises and leaves the part
  written so far. An exception leaves the method.
\<close>

definition save_book_database :: "'f codec \<Rightarrow> 'f state \<Rightarrow> (error + unit) \<times> 'f state" where
  "save_book_database c s =
     (case write_error s (file_name s) of
        Some e \<Rightarrow> (Inl e, s)
      | None \<Rightarrow>
          (case json_dump c (book_data s) of
             Inl (e, truncated) \<Rightarrow> (Inl e, s\<lparr>fs := (fs s)(file_name s \<mapsto> truncated)\<rparr>)
           | Inr content \<Rightarrow> (Inr (), s\<lparr>fs := (fs s)(file_name s \<mapsto> content)\<rparr>)))"

subsection \<open>\<open>change_status\<close>\<close>

text \<open>
  Lines 160-171. The local variable \<open>result\<close> is unbound (\<open>None\<close> here) until the loop
  body assigns it; the \<open>else\<close> of line 169 belongs to the \<open>if\<close> of line 161, so every
  book that does not match assigns the not-found message and the scan goes on. A match
  sets the status of that object, assigns the success message, saves and leaves the
  loop; an exception of the save leaves the method with the status already set. Reading
  \<open>result\<close> while it is unbound raises \<open>UnboundLocalError\<close>.
\<close>

fun change_status_loop ::
  "'f codec \<Rightarrow> str \<Rightarrow> str \<Rightarrow> ref list \<Rightarrow> str option \<Rightarrow> 'f state \<Rightarrow>
     (error + str option) \<times> 'f state"
where
  "change_status_loop c i new_status [] result s = (Inr result, s)"
| "change_status_loop c i new_status (book # rest) result s =
     (if book_id (heap s book) = PStr i then
        let s1 = s\<lparr>heap := (heap s)(book := (heap s book)
                   \<lparr>status := PStr (if new_status = str_1 then status_available
                                     else status_checked_out)\<rparr>)\<rparr>
        in (case save_book_database c s1 of
              (Inl e, s2) \<Rightarrow> (Inl e, s2)
            | (Inr u, s2) \<Rightarrow> (Inr (Some msg_status_changed), s2))
      else change_status_loop c i new_status rest (Some msg_book_not_found) s)"

definition change_status ::
  "'f codec \<Rightarrow> str \<Rightarrow> str \<Rightarrow> 'f state \<Rightarrow> (error + str) \<times> 'f state"
where
  "change_status c i new_status s =
     (case change_status_loop c i new_status (books s) None s of
        (Inl e, s') \<Rightarrow> (Inl e, s')
      | (Inr None, s') \<Rightarrow> (Inl UnboundLocalError, s')
      | (Inr (Some result), s') \<Rightarrow> (Inr result, s'))"

subsection \<open>\<open>load_book_library\<close>\<close>

text \<open>
  \<open>Books(**book)\<close>, line 49: \<open>book\<close> must be a mapping whose keys are exactly the five
  parameter names; a missing or an unexpected keyword, or a value that is no mapping,
  raises \<open>TypeError\<close>. The values are stored as they are.
\<close>

definition field_names :: "str list" where
  "field_names = [k_id, k_title, k_author, k_year, k_status]"

definition Books_kwargs :: "(str \<times> pyval) list \<Rightarrow> error + Books" where
  "Books_kwargs kw =
     (case (map_of kw k_id, map_of kw k_title, map_of kw k_author, map_of kw k_year,
            map_of kw k_status) of
        (Some i, Some t, Some a, Some y, Some st) \<Rightarrow>
          if list_all (\<lambda>k. k \<in> set field_names) (map fst kw)
          then Inr \<lparr>book_id = i, title = t, author = a, year = y, status = st\<rparr>
          else Inl TypeError
      | _ \<Rightarrow> Inl TypeError)"

fun Books_init :: "pyval \<Rightarrow> error + Books" where
  "Books_init (PDict kw) = Books_kwargs kw"
| "Books_init _ = Inl TypeError"

text \<open>
  \<open>for book in book_data\<close>: a list gives its elements, a dict its keys, a string its
  characters; the other decoded values are not iterable.
\<close>

fun py_iter :: "pyval \<Rightarrow> error + pyval list" where
  "py_iter (PList xs) = Inr xs"
| "py_iter (PDict kw) = Inr (map (\<lambda>item. PStr (fst item)) kw)"
| "py_iter (PStr t) = Inr (map (\<lambda>ch. PStr [ch]) t)"
| "py_iter _ = Inl TypeError"

text \<open>
  The list comprehension of line 49: each element becomes a new object at the next free
  reference; the first element that cannot be turned into a \<open>Books\<close> ends it with the
  exception.
\<close>

fun load_books :: "pyval list \<Rightarrow> 'f state \<Rightarrow> (error + ref list) \<times> 'f state" where
  "load_books [] s = (Inr [], s)"
| "load_books (book # rest) s =
     (case Books_init book of
        Inl e \<Rightarrow> (Inl e, s)
      | Inr b \<Rightarrow>
          let r = next_ref s;
              s1 = s\<lparr>heap := (heap s)(r := b), next_ref := Suc r\<rparr>
          in (case load_books rest s1 of
                (Inl e, s2) \<Rightarrow> (Inl e, s2)
              | (Inr rs, s2) \<Rightarrow> (Inr (r # rs), s2)))"

text \<open>
  Lines 46-55. Only \<open>FileNotFoundError\<close> (no content under the path) and
  \<open>JSONDecodeError\<close> are caught; every other exception leaves the method.
\<close>

definition load_book_library :: "'f codec \<Rightarrow> 'f state \<Rightarrow> (error + ref list) \<times> 'f state" where
  "load_book_library c s =
     (case fs s (file_name s) of
        None \<Rightarrow> (Inr [], s)
      | Some content \<Rightarrow>
          (case json_load c content of
             Inl e \<Rightarrow>
               if e = JSONDecodeError
               then (Inr [], s\<lparr>stdout := stdout s @ [msg_decode_error]\<rparr>)
               else (Inl e, s)
           | Inr decoded \<Rightarrow>
               (case py_iter decoded of
                  Inl e \<Rightarrow> (Inl e, s)
                | Inr items \<Rightarrow> load_books items s)))"

text \<open>\<open>__init__\<close>, lines 34-35.\<close>

definition Books_Library_init ::
  "'f codec \<Rightarrow> str \<Rightarrow> 'f state \<Rightarrow> (error + unit) \<times> 'f state"
where
  "Books_Library_init c name s =
     (case load_book_library c (s\<lparr>file_name := name\<rparr>) of
        (Inl e, s1) \<Rightarrow> (Inl e, s1)
      | (Inr rs, s1) \<Rightarrow> (Inr (), s1\<lparr>books := rs\<rparr>))"

subsection \<open>\<open>add_book\<close>\<close>

text \<open>
  Lines 90-92: append the reference, save, print. There is no other check. An exception
  of the save leaves the method after the append and before the print.
\<close>

definition add_book :: "'f codec \<Rightarrow> ref \<Rightarrow> 'f state \<Rightarrow> (error + unit) \<times> 'f state" where
  "add_book c book s =
     (case save_book_database c (s\<lparr>books := books s @ [book]\<rparr>) of
        (Inl e, s2) \<Rightarrow> (Inl e, s2)
      | (Inr u, s2) \<Rightarrow> (Inr (), s2\<lparr>stdout := stdout s2 @ [msg_added]\<rparr>))"

subsection \<open>\<open>delete_book\<close>\<close>

text \<open>
  \<open>list.remove(x)\<close> deletes the first element equal to \<open>x\<close> and raises \<open>ValueError\<close>
  when there is none. A \<open>Books\<close> object is equal only to itself.
\<close>

definition list_remove :: "ref \<Rightarrow> ref list \<Rightarrow> error + ref list" where
  "list_remove x xs = (if x \<in> set xs then Inr (remove1 x xs) else Inl ValueError)"

text \<open>
  Lines 106-112. \<open>next(..., None)\<close> is the first book of the list whose \<open>id\<close> equals
  \<open>id_delete\<close>, a string; a field holding a value of another type equals no string.
  An exception of the save leaves the method after the removal.
\<close>

definition delete_book :: "'f codec \<Rightarrow> str \<Rightarrow> 'f state \<Rightarrow> (error + str) \<times> 'f state" where
  "delete_book c id_delete s =
     (case find (\<lambda>book. book_id (heap s book) = PStr id_delete) (books s) of
        None \<Rightarrow> (Inr (msg_delete_not_found id_delete), s)
      | Some book_to_delete \<Rightarrow>
          (case list_remove book_to_delete (books s) of
             Inl e \<Rightarrow> (Inl e, s)
           | Inr remaining \<Rightarrow>
               (case save_book_database c (s\<lparr>books := remaining\<rparr>) of
                  (Inl e, s2) \<Rightarrow> (Inl e, s2)
                | (Inr u, s2) \<Rightarrow> (Inr msg_deleted, s2))))"

subsection \<open>\<open>search_book\<close>\<close>

text \<open>
  \<open>str.lower\<close> follows the Unicode tables of the interpreter; it is a parameter
  \<open>lower\<close>. \<open>a in b\<close> on two strings is the contiguous-substring test \<^const>\<open>sublist\<close>.
\<close>

text \<open>\<open>vars(book).values()\<close>: the attributes in the order \<open>__init__\<close> assigned them.\<close>

definition vars_values :: "Books \<Rightarrow> pyval list" where
  "vars_values book = [book_id book, title book, author book, year book, status book]"

text \<open>
  \<open>any(crit.lower() in value.lower() for value in ...)\<close>, line 128: the values are tried
  in order, the first match ends the scan, and a value that is not a string has no
  method \<open>lower\<close>.
\<close>

fun any_value_matches :: "(str \<Rightarrow> str) \<Rightarrow> str \<Rightarrow> pyval list \<Rightarrow> error + bool" where
  "any_value_matches lower crit [] = Inr False"
| "any_value_matches lower crit (v # vs) =
     (case v of
        PStr t \<Rightarrow>
          if sublist (lower crit) (lower t) then Inr True
          else any_value_matches lower crit vs
      | _ \<Rightarrow> Inl AttributeError)"

text \<open>The list comprehension of line 128 over \<open>self.books\<close>.\<close>

fun matching_books ::
  "(str \<Rightarrow> str) \<Rightarrow> (ref \<Rightarrow> Books) \<Rightarrow> str \<Rightarrow> ref list \<Rightarrow> error + ref list"
where
  "matching_books lower h crit [] = Inr []"
| "matching_books lower h crit (book # rest) =
     (case any_value_matches lower crit (vars_values (h book)) of
        Inl e \<Rightarrow> Inl e
      | Inr hit \<Rightarrow>
          (case matching_books lower h crit rest of
             Inl e \<Rightarrow> Inl e
           | Inr result \<Rightarrow> Inr (if hit then book # result else result)))"

text \<open>
  The loop of lines 127-129. \<open>results\<close> is a set of objects, hashed by identity: a set
  of references.
\<close>

fun search_loop ::
  "(str \<Rightarrow> str) \<Rightarrow> (ref \<Rightarrow> Books) \<Rightarrow> ref list \<Rightarrow> str list \<Rightarrow> ref set \<Rightarrow> error + ref set"
where
  "search_loop lower h bs [] results = Inr results"
| "search_loop lower h bs (crit # rest) results =
     (case matching_books lower h crit bs of
        Inl e \<Rightarrow> Inl e
      | Inr result \<Rightarrow> search_loop lower h bs rest (results \<union> set result))"

definition search_book ::
  "(str \<Rightarrow> str) \<Rightarrow> str list \<Rightarrow> 'f state \<Rightarrow> (error + ref set) \<times> 'f state"
where
  "search_book lower criterion s =
     (search_loop lower (heap s) (books s) criterion {}, s)"

subsection \<open>\<open>show_all_books\<close>\<close>

definition show_all_books :: "'f state \<Rightarrow> ref list \<times> 'f state" where
  "show_all_books s = (books s, s)"

section \<open>What the specification says\<close>

text \<open>
  The definitions of this section are written from the specification, not from the
  code; the properties compare the methods with them.

  The data model gives every field of a record a string value.
\<close>

definition str_fields :: "Books \<Rightarrow> bool" where
  "str_fields book =
     (is_str (book_id book) \<and> is_str (title book) \<and> is_str (author book) \<and>
      is_str (year book) \<and> is_str (status book))"

text \<open>
  A criterion is a case-insensitive substring of a field value: the value is a string,
  and the lower-cased criterion is a substring of the lower-cased value.
\<close>

definition substring_of :: "(str \<Rightarrow> str) \<Rightarrow> str \<Rightarrow> pyval \<Rightarrow> bool" where
  "substring_of lower crit v =
     (case v of PStr t \<Rightarrow> sublist (lower crit) (lower t) | _ \<Rightarrow> False)"

text \<open>
  A criterion matches a record when it is a case-insensitive substring of the identifier,
  the title, the author, the year or the status.
\<close>

definition crit_matches :: "(str \<Rightarrow> str) \<Rightarrow> str \<Rightarrow> Books \<Rightarrow> bool" where
  "crit_matches lower crit book =
     (substring_of lower crit (book_id book) \<or> substring_of lower crit (title book) \<or>
      substring_of lower crit (author book) \<or> substring_of lower crit (year book) \<or>
      substring_of lower crit (status book))"

text \<open>
  The backing file holds a sequence of objects, one per record in the order of the
  collection, each with exactly the five named fields "id", "title", "author", "year"
  and "status" in this order.
\<close>

definition record_object :: "Books \<Rightarrow> pyval" where
  "record_object book =
     PDict [([105, 100], book_id book),
            ([116, 105, 116, 108, 101], title book),
            ([97, 117, 116, 104, 111, 114], author book),
            ([121, 101, 97, 114], year book),
            ([115, 116, 97, 116, 117, 115], status book)]"

definition file_document :: "(ref \<Rightarrow> Books) \<Rightarrow> ref list \<Rightarrow> pyval" where
  "file_document h bs = PList (map (\<lambda>book. record_object (h book)) bs)"

text \<open>
  The backing file can be written with a document: the path opens for writing and the
  encoder gives a content for the document.
\<close>

definition writes :: "'f codec \<Rightarrow> 'f state \<Rightarrow> pyval \<Rightarrow> 'f \<Rightarrow> bool" where
  "writes c s document content =
     (write_error s (file_name s) = None \<and> json_dump c document = Inr content)"

section \<open>Concrete instances\<close>

text \<open>
  A codec to run the methods on: the content of a file is the decoded document, or
  \<open>None\<close> for a text that is not JSON. As the UTF-8 writer of the source does, it
  refuses a document with a lone surrogate (a code point from D800 to DFFF) in a string
  and leaves a truncated text. A lower-casing function for ASCII letters.
\<close>

definition surrogate :: "nat \<Rightarrow> bool" where
  "surrogate ch = (55296 \<le> ch \<and> ch \<le> 57343)"

fun has_surrogate :: "pyval \<Rightarrow> bool" where
  "has_surrogate (PStr t) = list_ex surrogate t"
| "has_surrogate (PList xs) = list_ex has_surrogate xs"
| "has_surrogate (PDict kw) =
     list_ex (\<lambda>item. list_ex surrogate (fst item) \<or> has_surrogate (snd item)) kw"
| "has_surrogate v = False"

definition document_codec :: "pyval option codec" where
  "document_codec =
     \<lparr>json_dump = (\<lambda>v. if has_surrogate v then Inl (UnicodeEncodeError, None)
                        else Inr (Some v)),
      json_load = (\<lambda>content. case content of None \<Rightarrow> Inl JSONDecodeError | Some v \<Rightarrow> Inr v)\<rparr>"

definition ascii_lower :: "str \<Rightarrow> str" where
  "ascii_lower t = map (\<lambda>ch. if 65 \<le> ch \<and> ch \<le> 90 then ch + 32 else ch) t"

text \<open>The default path "data/book_database.json" of line 27.\<close>

definition default_file_name :: str where
  "default_file_name =
     [100, 97, 116, 97, 47, 98, 111, 111, 107, 95, 100, 97, 116, 97, 98, 97, 115, 101, 46, 106,
      115, 111, 110]"

text \<open>
  Two books: "a1", "Dune", "Herbert", "1965" and "b2", "Animal Farm", "Orwell", "1945",
  both with the status \<open>main\<close> gives a new book ("v nalichii", in lower case).
\<close>

definition status_initial :: str where
  "status_initial = [1074, 32, 1085, 1072, 1083, 1080, 1095, 1080, 1080]"

definition book_dune :: Books where
  "book_dune =
     \<lparr>book_id = PStr [97, 49], title = PStr [68, 117, 110, 101],
      author = PStr [72, 101, 114, 98, 101, 114, 116], year = PStr [49, 57, 54, 53],
      status = PStr status_initial\<rparr>"

definition book_farm :: Books where
  "book_farm =
     \<lparr>book_id = PStr [98, 50],
      title = PStr [65, 110, 105, 109, 97, 108, 32, 70, 97, 114, 109],
      author = PStr [79, 114, 119, 101, 108, 108], year = PStr [49, 57, 52, 53],
      status = PStr status_initial\<rparr>"

definition two_books_heap :: "ref \<Rightarrow> Books" where
  "two_books_heap r = (if r = 0 then book_dune else book_farm)"

definition two_books :: "pyval option state" where
  "two_books =
     \<lparr>file_name = default_file_name, books = [0, 1], heap = two_books_heap, next_ref = 2,
      fs = Map.empty, write_error = Map.empty, stdout = []\<rparr>"

definition no_books :: "pyval option state" where
  "no_books =
     \<lparr>file_name = default_file_name, books = [], heap = two_books_heap, next_ref = 2,
      fs = Map.empty, write_error = Map.empty, stdout = []\<rparr>"

text \<open>
  A store whose file holds valid JSON that is not a list of five-field records:
  \<open>[{"id": "a1", "title": "Dune"}]\<close>.
\<close>

definition incomplete_record_store :: "pyval option state" where
  "incomplete_record_store =
     \<lparr>file_name = default_file_name, books = [], heap = two_books_heap, next_ref = 2,
      fs = [default_file_name \<mapsto>
              Some (PList [PDict [(k_id, PStr [97, 49]), (k_title, PStr [68, 117, 110, 101])]])],
      write_error = Map.empty, stdout = []\<rparr>"

text \<open>
  The two books in a working directory without the directory "data": the default path
  cannot be opened for writing.
\<close>

definition two_books_no_directory :: "pyval option state" where
  "two_books_no_directory =
     two_books\<lparr>write_error := [default_file_name \<mapsto> FileNotFoundError]\<rparr>"

text \<open>
  A file with the two books where the first title is the escape \<open>\ud800\<close>, a lone
  surrogate, and a file with the first book where the year is the number 1965:
  \<open>[{"id": "a1", "title": "\ud800", ...}, {"id": "b2", "title": "Animal Farm", ...}]\<close>
  and
  \<open>[{"id": "a1", "title": "Dune", "author": "Herbert", "year": 1965, "status": ...}]\<close>.
  Both are valid JSON with the five fields, and the constructor loads them.
\<close>

definition surrogate_title_file :: "pyval option state" where
  "surrogate_title_file =
     \<lparr>file_name = [], books = [], heap = two_books_heap, next_ref = 0,
      fs = [default_file_name \<mapsto>
              Some (PList [PDict [(k_id, PStr [97, 49]), (k_title, PStr [55296]),
                                  (k_author, PStr [72, 101, 114, 98, 101, 114, 116]),
                                  (k_year, PStr [49, 57, 54, 53]),
                                  (k_status, PStr status_initial)],
                           PDict [(k_id, PStr [98, 50]),
                                  (k_title, PStr [65, 110, 105, 109, 97, 108, 32, 70, 97, 114, 109]),
                                  (k_author, PStr [79, 114, 119, 101, 108, 108]),
                                  (k_year, PStr [49, 57, 52, 53]),
                                  (k_status, PStr status_initial)]])],
      write_error = Map.empty, stdout = []\<rparr>"

definition numeric_year_file :: "pyval option state" where
  "numeric_year_file =
     \<lparr>file_name = [], books = [], heap = two_books_heap, next_ref = 0,
      fs = [default_file_name \<mapsto>
              Some (PList [PDict [(k_id, PStr [97, 49]), (k_title, PStr [68, 117, 110, 101]),
                                  (k_author, PStr [72, 101, 114, 98, 101, 114, 116]),
                                  (k_year, PInt 1965),
                                  (k_status, PStr status_initial)]])],
      write_error = Map.empty, stdout = []\<rparr>"

definition surrogate_title_store :: "pyval option state" where
  "surrogate_title_store =
     snd (Books_Library_init document_codec default_file_name surrogate_title_file)"

definition numeric_year_store :: "pyval option state" where
  "numeric_year_store =
     snd (Books_Library_init document_codec default_file_name numeric_year_file)"

section \<open>Properties\<close>


subsection \<open>Lists\<close>

lemma find_first_index:
  "k < length xs \<Longrightarrow> P (xs ! k) \<Longrightarrow> (\<forall>j<k. \<not> P (xs ! j)) \<Longrightarrow> find P xs = Some (xs ! k)"
  by (auto simp: find_Some_iff)

lemma remove1_first_index:
  "k < length xs \<Longrightarrow> (\<forall>j<k. xs ! j \<noteq> xs ! k) \<Longrightarrow>
   remove1 (xs ! k) xs = take k xs @ drop (Suc k) xs"
proof (induction xs arbitrary: k)
  case Nil
  then show ?case by simp
next
  case (Cons x xs)
  show ?case
  proof (cases k)
    case 0
    then show ?thesis by simp
  next
    case (Suc m)
    have neq: "x \<noteq> xs ! m"
      using Cons.prems(2) Suc by auto
    have "\<forall>j<m. xs ! j \<noteq> xs ! m"
      using Cons.prems(2) Suc by auto
    then have "remove1 (xs ! m) xs = take m xs @ drop (Suc m) xs"
      using Cons.IH [of m] Cons.prems(1) Suc by simp
    then show ?thesis
      using Suc neq by simp
  qed
qed

lemma distinct_ids_after_removal:
  assumes "distinct (map f xs)" and "k < length xs"
  shows "\<forall>x\<in>set (take k xs @ drop (Suc k) xs). f x \<noteq> f (xs ! k)"
proof -
  have "xs = take k xs @ xs ! k # drop (Suc k) xs"
    using assms(2) by (simp add: id_take_nth_drop)
  then have "distinct (map f (take k xs @ xs ! k # drop (Suc k) xs))"
    using assms(1) by simp
  then show ?thesis
    by (auto simp: image_iff)
qed

subsection \<open>\<open>save_book_database\<close>\<close>

lemma book_dict_record_object: "book_dict book = record_object book"
  by (simp add: book_dict_def record_object_def k_id_def k_title_def k_author_def k_year_def
      k_status_def)

lemma book_data_file_document: "book_data s = file_document (heap s) (books s)"
  by (simp add: book_data_def file_document_def book_dict_record_object)

lemma save_book_database_writes:
  "writes c s (file_document (heap s) (books s)) content \<Longrightarrow>
   save_book_database c s = (Inr (), s\<lparr>fs := (fs s)(file_name s \<mapsto> content)\<rparr>)"
  by (simp add: save_book_database_def writes_def book_data_file_document)

lemma save_book_database_memory:
  "books (snd (save_book_database c s)) = books s \<and>
   heap (snd (save_book_database c s)) = heap s \<and>
   file_name (snd (save_book_database c s)) = file_name s \<and>
   write_error (snd (save_book_database c s)) = write_error s \<and>
   next_ref (snd (save_book_database c s)) = next_ref s \<and>
   stdout (snd (save_book_database c s)) = stdout s"
  by (simp add: save_book_database_def split: option.splits sum.splits prod.splits)

lemma save_book_database_open_fails:
  "write_error s (file_name s) = Some e \<Longrightarrow> save_book_database c s = (Inl e, s)"
  by (simp add: save_book_database_def)

subsection \<open>\<open>delete_book\<close>\<close>

lemma delete_book_find:
  "delete_book c i s =
     (case find (\<lambda>book. book_id (heap s book) = PStr i) (books s) of
        None \<Rightarrow> (Inr (msg_delete_not_found i), s)
      | Some book \<Rightarrow>
          (case save_book_database c (s\<lparr>books := remove1 book (books s)\<rparr>) of
             (Inl e, s2) \<Rightarrow> (Inl e, s2)
           | (Inr u, s2) \<Rightarrow> (Inr msg_deleted, s2)))"
proof (cases "find (\<lambda>book. book_id (heap s book) = PStr i) (books s)")
  case None
  then show ?thesis by (simp add: delete_book_def)
next
  case (Some book)
  then have "book \<in> set (books s)"
    by (auto simp: find_Some_iff)
  with Some show ?thesis
    by (simp add: delete_book_def list_remove_def)
qed

lemma delete_book_at_index:
  assumes "k < length (books s)"
    and "book_id (heap s (books s ! k)) = PStr i"
    and "\<forall>j<k. book_id (heap s (books s ! j)) \<noteq> PStr i"
  shows "delete_book c i s =
     (case save_book_database c (s\<lparr>books := take k (books s) @ drop (Suc k) (books s)\<rparr>) of
        (Inl e, s2) \<Rightarrow> (Inl e, s2)
      | (Inr u, s2) \<Rightarrow> (Inr msg_deleted, s2))"
proof -
  have f: "find (\<lambda>book. book_id (heap s book) = PStr i) (books s) = Some (books s ! k)"
    using assms by (intro find_first_index) auto
  have "\<forall>j<k. books s ! j \<noteq> books s ! k"
    using assms(2,3) by metis
  then have "remove1 (books s ! k) (books s) = take k (books s) @ drop (Suc k) (books s)"
    using assms(1) by (rule remove1_first_index [rotated])
  with f show ?thesis
    by (simp add: delete_book_find)
qed

lemma delete_book_memory:
  assumes "k < length (books s)"
    and "book_id (heap s (books s ! k)) = PStr i"
    and "\<forall>j<k. book_id (heap s (books s ! j)) \<noteq> PStr i"
  shows "books (snd (delete_book c i s)) = take k (books s) @ drop (Suc k) (books s) \<and>
         heap (snd (delete_book c i s)) = heap s"
proof -
  let ?s1 = "s\<lparr>books := take k (books s) @ drop (Suc k) (books s)\<rparr>"
  have "snd (delete_book c i s) = snd (save_book_database c ?s1)"
    unfolding delete_book_at_index [OF assms]
    by (simp split: prod.splits sum.splits)
  then show ?thesis
    using save_book_database_memory [of c ?s1] by simp
qed

lemma delete_book_written:
  assumes "k < length (books s)"
    and "book_id (heap s (books s ! k)) = PStr i"
    and "\<forall>j<k. book_id (heap s (books s ! j)) \<noteq> PStr i"
    and "writes c s (file_document (heap s) (take k (books s) @ drop (Suc k) (books s))) content"
  shows "delete_book c i s =
     (Inr msg_deleted,
      s\<lparr>books := take k (books s) @ drop (Suc k) (books s),
        fs := (fs s)(file_name s \<mapsto> content)\<rparr>)"
proof -
  let ?s1 = "s\<lparr>books := take k (books s) @ drop (Suc k) (books s)\<rparr>"
  have "writes c ?s1 (file_document (heap ?s1) (books ?s1)) content"
    using assms(4) by (simp add: writes_def)
  then have "save_book_database c ?s1 =
      (Inr (), ?s1\<lparr>fs := (fs ?s1)(file_name ?s1 \<mapsto> content)\<rparr>)"
    by (rule save_book_database_writes)
  then show ?thesis
    unfolding delete_book_at_index [OF assms(1-3)] by simp
qed

lemma delete_book_absent:
  assumes "\<forall>book\<in>set (books s). book_id (heap s book) \<noteq> PStr i"
  shows "delete_book c i s = (Inr (msg_delete_not_found i), s)"
proof -
  have "find (\<lambda>book. book_id (heap s book) = PStr i) (books s) = None"
    using assms by (simp add: find_None_iff)
  then show ?thesis
    by (simp add: delete_book_find)
qed

lemma delete_book_twice:
  assumes "distinct (map (\<lambda>book. book_id (heap s book)) (books s))"
    and "\<exists>book\<in>set (books s). book_id (heap s book) = PStr i"
  shows "fst (delete_book c i (snd (delete_book c i s))) = Inr (msg_delete_not_found i) \<and>
         (\<forall>content.
            writes c s (file_document (heap s) (books (snd (delete_book c i s)))) content \<longrightarrow>
            fst (delete_book c i s) = Inr msg_deleted)"
proof -
  let ?P = "\<lambda>book. book_id (heap s book) = PStr i"
  from assms(2) obtain book where "find ?P (books s) = Some book"
    by (cases "find ?P (books s)") (auto simp: find_None_iff)
  then obtain k where k: "k < length (books s)" "?P (books s ! k)"
      "\<forall>j<k. book_id (heap s (books s ! j)) \<noteq> PStr i"
    by (auto simp: find_Some_iff)
  let ?s1 = "snd (delete_book c i s)"
  let ?rest = "take k (books s) @ drop (Suc k) (books s)"
  have mem: "books ?s1 = ?rest" "heap ?s1 = heap s"
    using delete_book_memory [OF k, of c] by simp_all
  have "\<forall>x\<in>set ?rest. book_id (heap s x) \<noteq> book_id (heap s (books s ! k))"
    using assms(1) k(1) by (intro distinct_ids_after_removal) auto
  then have "\<forall>book\<in>set (books ?s1). book_id (heap ?s1 book) \<noteq> PStr i"
    using k(2) mem by simp
  then have second: "delete_book c i ?s1 = (Inr (msg_delete_not_found i), ?s1)"
    by (rule delete_book_absent)
  have first: "fst (delete_book c i s) = Inr msg_deleted"
    if "writes c s (file_document (heap s) (books ?s1)) content" for content
    using delete_book_written [OF k, of c content] that mem by simp
  from second first show ?thesis
    by simp
qed

text \<open>
  C3. \<open>delete_book\<close> on an identifier that is present (first at index \<open>k\<close>) removes
  exactly the element at index \<open>k\<close> and leaves the others, later records with the same
  identifier included, in place and in order; no object changes. When the backing file
  can be written with the document of the remaining records, the call returns the
  success message and the file holds the content the encoder gives for that document,
  nothing else in the state being different. On an identifier that is absent it returns
  the not-found message and the state is what it was. When the identifiers of the list
  are pairwise distinct, a second deletion of a present identifier reports not-found, and
  the first one succeeds when the file can be written.
\<close>

theorem delete_book_first_match:
  "(k < length (books s) \<and> book_id (heap s (books s ! k)) = PStr i \<and>
    (\<forall>j<k. book_id (heap s (books s ! j)) \<noteq> PStr i) \<longrightarrow>
      (let remaining = take k (books s) @ drop (Suc k) (books s)
       in books (snd (delete_book c i s)) = remaining \<and>
          heap (snd (delete_book c i s)) = heap s \<and>
          (\<forall>content. writes c s (file_document (heap s) remaining) content \<longrightarrow>
             delete_book c i s =
               (Inr msg_deleted,
                s\<lparr>books := remaining, fs := (fs s)(file_name s \<mapsto> content)\<rparr>))))
   \<and> ((\<forall>book\<in>set (books s). book_id (heap s book) \<noteq> PStr i) \<longrightarrow>
        delete_book c i s = (Inr (msg_delete_not_found i), s))
   \<and> (distinct (map (\<lambda>book. book_id (heap s book)) (books s)) \<and>
       (\<exists>book\<in>set (books s). book_id (heap s book) = PStr i) \<longrightarrow>
        fst (delete_book c i (snd (delete_book c i s))) = Inr (msg_delete_not_found i) \<and>
        (\<forall>content.
           writes c s (file_document (heap s) (books (snd (delete_book c i s)))) content \<longrightarrow>
           fst (delete_book c i s) = Inr msg_deleted))"
proof -
  have present: "let remaining = take k (books s) @ drop (Suc k) (books s)
       in books (snd (delete_book c i s)) = remaining \<and>
          heap (snd (delete_book c i s)) = heap s \<and>
          (\<forall>content. writes c s (file_document (heap s) remaining) content \<longrightarrow>
             delete_book c i s =
               (Inr msg_deleted,
                s\<lparr>books := remaining, fs := (fs s)(file_name s \<mapsto> content)\<rparr>))"
    if "k < length (books s)" "book_id (heap s (books s ! k)) = PStr i"
      "\<forall>j<k. book_id (heap s (books s ! j)) \<noteq> PStr i"
    unfolding Let_def
    using delete_book_memory [OF that, of c] delete_book_written [OF that, of c]
    by blast
  show ?thesis
    using present delete_book_absent [of s i c] delete_book_twice [of s i c]
    by blast
qed


theorem delete_book_first_match_witness:
  "delete_book document_codec [98, 50] two_books =
     (Inr msg_deleted,
      two_books\<lparr>books := [0],
        fs := [default_file_name \<mapsto>
          Some (PList [PDict [([105, 100], PStr [97, 49]),
                              ([116, 105, 116, 108, 101], PStr [68, 117, 110, 101]),
                              ([97, 117, 116, 104, 111, 114],
                               PStr [72, 101, 114, 98, 101, 114, 116]),
                              ([121, 101, 97, 114], PStr [49, 57, 54, 53]),
                              ([115, 116, 97, 116, 117, 115], PStr status_initial)]])]\<rparr>) \<and>
   delete_book document_codec [122, 122] two_books =
     (Inr (msg_delete_not_found [122, 122]), two_books) \<and>
   fst (delete_book document_codec [97, 49] two_books) = Inr msg_deleted \<and>
   fst (delete_book document_codec [97, 49]
         (snd (delete_book document_codec [97, 49] two_books))) =
     Inr (msg_delete_not_found [97, 49])"
proof -
  note defs = two_books_def two_books_heap_def book_dune_def book_farm_def
  note codec = document_codec_def writes_def file_document_def record_object_def
    surrogate_def status_initial_def
  let ?dune = "PList [PDict [([105, 100], PStr [97, 49]),
                              ([116, 105, 116, 108, 101], PStr [68, 117, 110, 101]),
                              ([97, 117, 116, 104, 111, 114],
                               PStr [72, 101, 114, 98, 101, 114, 116]),
                              ([121, 101, 97, 114], PStr [49, 57, 54, 53]),
                              ([115, 116, 97, 116, 117, 115], PStr status_initial)]]"
  have w: "writes document_codec two_books
      (file_document (heap two_books) (take 1 (books two_books) @ drop (Suc 1) (books two_books)))
      (Some ?dune)"
    by (simp add: defs codec)
  have present: "delete_book document_codec [98, 50] two_books =
     (Inr msg_deleted,
      two_books\<lparr>books := [0], fs := [default_file_name \<mapsto> Some ?dune]\<rparr>)"
    using delete_book_first_match [of 1 two_books "[98, 50]" document_codec,
        THEN conjunct1] w
    by (simp add: defs Let_def)
  have absent: "delete_book document_codec [122, 122] two_books =
     (Inr (msg_delete_not_found [122, 122]), two_books)"
    using delete_book_first_match [of 0 two_books "[122, 122]" document_codec,
        THEN conjunct2, THEN conjunct1]
    by (simp add: defs)
  have unique: "distinct (map (\<lambda>book. book_id (heap two_books book)) (books two_books)) \<and>
      (\<exists>book\<in>set (books two_books). book_id (heap two_books book) = PStr [97, 49])"
    by (simp add: defs)
  note twice = delete_book_first_match [of 0 two_books "[97, 49]" document_codec,
        THEN conjunct2, THEN conjunct2, rule_format, OF unique]
  have mem: "books (snd (delete_book document_codec [97, 49] two_books)) = [1]"
    using delete_book_first_match [of 0 two_books "[97, 49]" document_codec,
        THEN conjunct1]
    by (simp add: defs Let_def)
  have w2: "writes document_codec two_books
      (file_document (heap two_books)
        (books (snd (delete_book document_codec [97, 49] two_books))))
      (Some (file_document (heap two_books) [1]))"
    unfolding mem by (simp add: defs codec)
  from twice w2 have "fst (delete_book document_codec [97, 49] two_books) = Inr msg_deleted"
    "fst (delete_book document_codec [97, 49]
         (snd (delete_book document_codec [97, 49] two_books))) =
     Inr (msg_delete_not_found [97, 49])"
    by blast+
  with present absent show ?thesis
    by (simp only: simp_thms)
qed

text \<open>
  C3, as the specification states it, does not hold on every store with a matching
  record. Without the directory of the path, deleting "a1" removes the record from the list and then
  raises \<open>FileNotFoundError\<close>: no result is returned and nothing is written. On the store
  loaded from the file with the lone surrogate, deleting "b2" removes the record and the
  save raises \<open>UnicodeEncodeError\<close>, leaving a truncated file.
\<close>

theorem delete_book_write_fails:
  "delete_book document_codec [97, 49] two_books_no_directory =
     (Inl FileNotFoundError, two_books_no_directory\<lparr>books := [1]\<rparr>) \<and>
   fst (delete_book document_codec [98, 50] surrogate_title_store) = Inl UnicodeEncodeError \<and>
   books (snd (delete_book document_codec [98, 50] surrogate_title_store)) = [0] \<and>
   fs (snd (delete_book document_codec [98, 50] surrogate_title_store)) default_file_name =
     Some None"
  by (simp add: delete_book_def list_remove_def save_book_database_def two_books_no_directory_def
      two_books_def two_books_heap_def book_dune_def book_farm_def
      surrogate_title_store_def surrogate_title_file_def Books_Library_init_def
      load_book_library_def Books_kwargs_def field_names_def k_id_def k_title_def
      k_author_def k_year_def k_status_def document_codec_def book_data_def book_dict_def
      surrogate_def status_initial_def Let_def)


subsection \<open>\<open>change_status\<close>\<close>

lemma change_status_loop_find:
  "change_status_loop c i tok bs result s =
     (case find (\<lambda>book. book_id (heap s book) = PStr i) bs of
        None \<Rightarrow> (Inr (if bs = [] then result else Some msg_book_not_found), s)
      | Some book \<Rightarrow>
          (case save_book_database c
                  (s\<lparr>heap := (heap s)(book := (heap s book)
                     \<lparr>status := PStr (if tok = str_1 then status_available
                                       else status_checked_out)\<rparr>)\<rparr>) of
             (Inl e, s2) \<Rightarrow> (Inl e, s2)
           | (Inr u, s2) \<Rightarrow> (Inr (Some msg_status_changed), s2)))"
  by (induction bs arbitrary: result) (auto simp: Let_def split: option.splits)

lemma change_status_at_index:
  assumes "k < length (books s)"
    and "book_id (heap s (books s ! k)) = PStr i"
    and "\<forall>j<k. book_id (heap s (books s ! j)) \<noteq> PStr i"
  shows "change_status c i tok s =
     (case save_book_database c
             (s\<lparr>heap := (heap s)(books s ! k := (heap s (books s ! k))
                \<lparr>status := PStr (if tok = str_1 then status_available
                                  else status_checked_out)\<rparr>)\<rparr>) of
        (Inl e, s2) \<Rightarrow> (Inl e, s2)
      | (Inr u, s2) \<Rightarrow> (Inr msg_status_changed, s2))"
proof -
  have "find (\<lambda>book. book_id (heap s book) = PStr i) (books s) = Some (books s ! k)"
    using assms by (intro find_first_index) auto
  then show ?thesis
    by (simp add: change_status_def change_status_loop_find split: prod.splits sum.splits)
qed

lemma change_status_memory:
  assumes "k < length (books s)"
    and "book_id (heap s (books s ! k)) = PStr i"
    and "\<forall>j<k. book_id (heap s (books s ! j)) \<noteq> PStr i"
  shows "heap (snd (change_status c i tok s)) =
           (heap s)(books s ! k := (heap s (books s ! k))
              \<lparr>status := PStr (if tok = str_1 then status_available
                                else status_checked_out)\<rparr>) \<and>
         books (snd (change_status c i tok s)) = books s"
proof -
  let ?s1 = "s\<lparr>heap := (heap s)(books s ! k := (heap s (books s ! k))
                \<lparr>status := PStr (if tok = str_1 then status_available
                                  else status_checked_out)\<rparr>)\<rparr>"
  have "snd (change_status c i tok s) = snd (save_book_database c ?s1)"
    unfolding change_status_at_index [OF assms]
    by (simp split: prod.splits sum.splits)
  then show ?thesis
    using save_book_database_memory [of c ?s1] by simp
qed

lemma change_status_written:
  assumes "k < length (books s)"
    and "book_id (heap s (books s ! k)) = PStr i"
    and "\<forall>j<k. book_id (heap s (books s ! j)) \<noteq> PStr i"
    and "writes c s
           (file_document
              ((heap s)(books s ! k := (heap s (books s ! k))
                 \<lparr>status := PStr (if tok = str_1 then status_available
                                   else status_checked_out)\<rparr>))
              (books s)) content"
  shows "change_status c i tok s =
     (Inr msg_status_changed,
      s\<lparr>heap := (heap s)(books s ! k := (heap s (books s ! k))
           \<lparr>status := PStr (if tok = str_1 then status_available
                             else status_checked_out)\<rparr>),
        fs := (fs s)(file_name s \<mapsto> content)\<rparr>)"
proof -
  let ?s1 = "s\<lparr>heap := (heap s)(books s ! k := (heap s (books s ! k))
                \<lparr>status := PStr (if tok = str_1 then status_available
                                  else status_checked_out)\<rparr>)\<rparr>"
  have "writes c ?s1 (file_document (heap ?s1) (books ?s1)) content"
    using assms(4) by (simp add: writes_def)
  then have "save_book_database c ?s1 =
      (Inr (), ?s1\<lparr>fs := (fs ?s1)(file_name ?s1 \<mapsto> content)\<rparr>)"
    by (rule save_book_database_writes)
  then show ?thesis
    unfolding change_status_at_index [OF assms(1-3)] by simp
qed

lemma change_status_absent:
  assumes "\<forall>book\<in>set (books s). book_id (heap s book) \<noteq> PStr i"
  shows "change_status c i tok s =
     (if books s = [] then Inl UnboundLocalError else Inr msg_book_not_found, s)"
proof -
  have "find (\<lambda>book. book_id (heap s book) = PStr i) (books s) = None"
    using assms by (simp add: find_None_iff)
  then show ?thesis
    by (simp add: change_status_def change_status_loop_find)
qed

text \<open>
  C8. On a store whose collection is empty, \<open>change_status\<close> returns no message for any
  identifier and token: the loop body never runs, \<open>result\<close> stays unbound, and the call
  raises \<open>UnboundLocalError\<close>. Nothing in the state changes.
\<close>

theorem change_status_empty_unbound:
  "books s = [] \<Longrightarrow> change_status c i new_status s = (Inl UnboundLocalError, s)"
  by (simp add: change_status_def)

theorem change_status_empty_unbound_witness:
  "books no_books = [] \<and>
   change_status document_codec [97, 49] str_1 no_books = (Inl UnboundLocalError, no_books)"
  using change_status_empty_unbound [of no_books document_codec "[97, 49]" str_1]
  by (simp add: no_books_def)

text \<open>
  C5. When the store holds a record with the identifier, the first record of the list
  whose \<open>id\<close> equals it (the one at index \<open>k\<close>, no earlier one matching) gets the status
  "V nalichii" (available) for the token \<open>"1"\<close> and "Vydana" (checked out) for every
  other token; no other object and no other field changes, and the list is the same.
  When the backing file can be written with the document of the collection as it is after
  the change, \<open>change_status\<close> returns the success message and the file holds the content
  the encoder gives for that document, nothing else in the state being different. When no
  record has the identifier, the state is what it was: no status is changed and nothing
  is written.
\<close>

theorem change_status_first_match:
  "(k < length (books s) \<and> book_id (heap s (books s ! k)) = PStr i \<and>
    (\<forall>j<k. book_id (heap s (books s ! j)) \<noteq> PStr i) \<longrightarrow>
      (let new = PStr (if tok = str_1 then status_available else status_checked_out);
           changed = (heap s)(books s ! k := (heap s (books s ! k))\<lparr>status := new\<rparr>)
       in heap (snd (change_status c i tok s)) = changed \<and>
          books (snd (change_status c i tok s)) = books s \<and>
          (\<forall>content. writes c s (file_document changed (books s)) content \<longrightarrow>
             change_status c i tok s =
               (Inr msg_status_changed,
                s\<lparr>heap := changed, fs := (fs s)(file_name s \<mapsto> content)\<rparr>))))
   \<and> ((\<forall>book\<in>set (books s). book_id (heap s book) \<noteq> PStr i) \<longrightarrow>
        snd (change_status c i tok s) = s)"
proof -
  have present: "let new = PStr (if tok = str_1 then status_available else status_checked_out);
           changed = (heap s)(books s ! k := (heap s (books s ! k))\<lparr>status := new\<rparr>)
       in heap (snd (change_status c i tok s)) = changed \<and>
          books (snd (change_status c i tok s)) = books s \<and>
          (\<forall>content. writes c s (file_document changed (books s)) content \<longrightarrow>
             change_status c i tok s =
               (Inr msg_status_changed,
                s\<lparr>heap := changed, fs := (fs s)(file_name s \<mapsto> content)\<rparr>))"
    if "k < length (books s)" "book_id (heap s (books s ! k)) = PStr i"
      "\<forall>j<k. book_id (heap s (books s ! j)) \<noteq> PStr i"
    unfolding Let_def
    using change_status_memory [OF that, of c tok] change_status_written [OF that, of c tok]
    by blast
  have absent: "snd (change_status c i tok s) = s"
    if "\<forall>book\<in>set (books s). book_id (heap s book) \<noteq> PStr i"
    using change_status_absent [OF that] by simp
  show ?thesis
    using present absent by blast
qed


theorem change_status_first_match_witness:
  "change_status document_codec [98, 50] [50] two_books =
     (Inr msg_status_changed,
      two_books\<lparr>heap := two_books_heap(1 := book_farm\<lparr>status := PStr status_checked_out\<rparr>),
        fs := [default_file_name \<mapsto>
          Some (PList [PDict [([105, 100], PStr [97, 49]),
                        ([116, 105, 116, 108, 101], PStr [68, 117, 110, 101]),
                        ([97, 117, 116, 104, 111, 114], PStr [72, 101, 114, 98, 101, 114, 116]),
                        ([121, 101, 97, 114], PStr [49, 57, 54, 53]),
                        ([115, 116, 97, 116, 117, 115], PStr status_initial)],
                 PDict [([105, 100], PStr [98, 50]),
                        ([116, 105, 116, 108, 101],
                         PStr [65, 110, 105, 109, 97, 108, 32, 70, 97, 114, 109]),
                        ([97, 117, 116, 104, 111, 114], PStr [79, 114, 119, 101, 108, 108]),
                        ([121, 101, 97, 114], PStr [49, 57, 52, 53]),
                        ([115, 116, 97, 116, 117, 115], PStr status_checked_out)]])]\<rparr>) \<and>
   heap (snd (change_status document_codec [97, 49] str_1 two_books)) =
     two_books_heap(0 := book_dune\<lparr>status := PStr status_available\<rparr>) \<and>
   snd (change_status document_codec [122, 122] str_1 two_books) = two_books"
proof -
  note defs = two_books_def two_books_heap_def book_dune_def book_farm_def str_1_def
  note codec = document_codec_def writes_def file_document_def record_object_def
    surrogate_def status_initial_def status_checked_out_def
  have w: "writes document_codec two_books
      (file_document
        ((heap two_books)(books two_books ! 1 := (heap two_books (books two_books ! 1))
           \<lparr>status := PStr (if [50] = str_1 then status_available
                             else status_checked_out)\<rparr>))
        (books two_books))
      (Some (PList [PDict [([105, 100], PStr [97, 49]),
                        ([116, 105, 116, 108, 101], PStr [68, 117, 110, 101]),
                        ([97, 117, 116, 104, 111, 114], PStr [72, 101, 114, 98, 101, 114, 116]),
                        ([121, 101, 97, 114], PStr [49, 57, 54, 53]),
                        ([115, 116, 97, 116, 117, 115], PStr status_initial)],
                 PDict [([105, 100], PStr [98, 50]),
                        ([116, 105, 116, 108, 101],
                         PStr [65, 110, 105, 109, 97, 108, 32, 70, 97, 114, 109]),
                        ([97, 117, 116, 104, 111, 114], PStr [79, 114, 119, 101, 108, 108]),
                        ([121, 101, 97, 114], PStr [49, 57, 52, 53]),
                        ([115, 116, 97, 116, 117, 115], PStr status_checked_out)]]))"
    by (simp add: defs codec)
  have second: "change_status document_codec [98, 50] [50] two_books =
     (Inr msg_status_changed,
      two_books\<lparr>heap := two_books_heap(1 := book_farm\<lparr>status := PStr status_checked_out\<rparr>),
        fs := [default_file_name \<mapsto>
          Some (PList [PDict [([105, 100], PStr [97, 49]),
                        ([116, 105, 116, 108, 101], PStr [68, 117, 110, 101]),
                        ([97, 117, 116, 104, 111, 114], PStr [72, 101, 114, 98, 101, 114, 116]),
                        ([121, 101, 97, 114], PStr [49, 57, 54, 53]),
                        ([115, 116, 97, 116, 117, 115], PStr status_initial)],
                 PDict [([105, 100], PStr [98, 50]),
                        ([116, 105, 116, 108, 101],
                         PStr [65, 110, 105, 109, 97, 108, 32, 70, 97, 114, 109]),
                        ([97, 117, 116, 104, 111, 114], PStr [79, 114, 119, 101, 108, 108]),
                        ([121, 101, 97, 114], PStr [49, 57, 52, 53]),
                        ([115, 116, 97, 116, 117, 115], PStr status_checked_out)]])]\<rparr>)"
    using change_status_first_match [of 1 two_books "[98, 50]" "[50]" document_codec,
        THEN conjunct1] w
    by (simp add: defs Let_def)
  have first: "heap (snd (change_status document_codec [97, 49] str_1 two_books)) =
      two_books_heap(0 := book_dune\<lparr>status := PStr status_available\<rparr>)"
    using change_status_first_match [of 0 two_books "[97, 49]" str_1 document_codec,
        THEN conjunct1]
    by (simp add: two_books_def two_books_heap_def book_dune_def book_farm_def Let_def)
  have absent: "snd (change_status document_codec [122, 122] str_1 two_books) = two_books"
    using change_status_first_match [of 0 two_books "[122, 122]" str_1 document_codec,
        THEN conjunct2]
    by (simp add: two_books_def two_books_heap_def book_dune_def book_farm_def)
  from second first absent show ?thesis
    by (simp only: simp_thms)
qed

text \<open>
  C5, as the specification states it, does not hold on every store with a matching
  record. On the store loaded from the file with the lone surrogate, the status of the first book is set,
  then the save raises \<open>UnicodeEncodeError\<close>: no message is returned and the file is left
  truncated. Without the directory of the path the save raises \<open>FileNotFoundError\<close> after
  the status is set.
\<close>

theorem change_status_write_fails:
  "fst (change_status document_codec [97, 49] str_1 surrogate_title_store) =
     Inl UnicodeEncodeError \<and>
   status (heap (snd (change_status document_codec [97, 49] str_1 surrogate_title_store)) 0) =
     PStr status_available \<and>
   fs (snd (change_status document_codec [97, 49] str_1 surrogate_title_store))
     default_file_name = Some None \<and>
   change_status document_codec [98, 50] [50] two_books_no_directory =
     (Inl FileNotFoundError,
      two_books_no_directory
        \<lparr>heap := two_books_heap(1 := book_farm\<lparr>status := PStr status_checked_out\<rparr>)\<rparr>)"
  by (simp add: change_status_def save_book_database_def two_books_no_directory_def
      two_books_def two_books_heap_def book_dune_def book_farm_def
      surrogate_title_store_def surrogate_title_file_def Books_Library_init_def
      load_book_library_def Books_kwargs_def field_names_def k_id_def k_title_def
      k_author_def k_year_def k_status_def document_codec_def book_data_def book_dict_def
      surrogate_def status_initial_def status_available_def str_1_def Let_def)

text \<open>
  C1. \<open>change_status\<close> on a store with no books, for the identifier "zz" and the token
  "2": no record matches, and the call raises \<open>UnboundLocalError\<close> where the not-found
  message is expected. (On a store with at least one book, \<open>change_status_absent\<close> gives
  the not-found message when nothing matches, and \<open>change_status_at_index\<close> the success
  message or the exception of the save when a record matches.)
\<close>

theorem change_status_no_books_raises:
  "change_status document_codec [122, 122] [50] no_books = (Inl UnboundLocalError, no_books)"
  by (simp add: change_status_def no_books_def)

subsection \<open>\<open>add_book\<close> and the queries\<close>

text \<open>
  C6. After \<open>add_book\<close>, \<open>show_all_books\<close> returns the previous list with the new book
  at the end, so it contains the book; no object of the heap changes. This holds whether
  or not the save raises. Nothing is assumed of the book: one whose identifier is already
  in the list is appended all the same.
\<close>

theorem add_book_appends:
  "fst (show_all_books (snd (add_book c book s))) = fst (show_all_books s) @ [book] \<and>
   book \<in> set (fst (show_all_books (snd (add_book c book s)))) \<and>
   heap (snd (add_book c book s)) = heap s"
proof -
  let ?s1 = "s\<lparr>books := books s @ [book]\<rparr>"
  have "books (snd (add_book c book s)) = books (snd (save_book_database c ?s1))"
    "heap (snd (add_book c book s)) = heap (snd (save_book_database c ?s1))"
    by (simp_all add: add_book_def split: prod.splits sum.splits)
  then show ?thesis
    using save_book_database_memory [of c ?s1] by (simp add: show_all_books_def)
qed

text \<open>
  C10. \<open>search_book\<close> and \<open>show_all_books\<close> are queries: for every input the state
  after the call is the state before it (the list, the objects, the files and the
  output), also when \<open>search_book\<close> raises.
\<close>

theorem queries_leave_state:
  "snd (search_book lower criterion s) = s \<and> snd (show_all_books s) = s"
  by (simp add: search_book_def show_all_books_def)


subsection \<open>\<open>search_book\<close>\<close>

lemma any_value_matches_strs:
  "list_all is_str vs \<Longrightarrow>
   any_value_matches lower crit vs = Inr (list_ex (substring_of lower crit) vs)"
proof (induction vs)
  case Nil
  then show ?case by simp
next
  case (Cons v vs)
  then obtain t where "v = PStr t"
    by (cases v) (simp_all add: is_str_def)
  with Cons show ?case
    by (auto simp: substring_of_def)
qed

lemma any_value_matches_cases:
  "any_value_matches lower crit vs = Inl AttributeError \<or>
   any_value_matches lower crit vs = Inr (list_ex (substring_of lower crit) vs)"
proof (induction vs)
  case Nil
  then show ?case by simp
next
  case (Cons v vs)
  then show ?case
    by (cases v) (auto simp: substring_of_def)
qed

lemma list_ex_vars_values:
  "list_ex (substring_of lower crit) (vars_values book) = crit_matches lower crit book"
  by (simp add: vars_values_def crit_matches_def)

lemma matching_books_filter:
  "\<forall>book\<in>set bs. str_fields (h book) \<Longrightarrow>
   matching_books lower h crit bs =
     Inr (filter (\<lambda>book. crit_matches lower crit (h book)) bs)"
proof (induction bs)
  case Nil
  then show ?case by simp
next
  case (Cons b bs)
  then have "list_all is_str (vars_values (h b))"
    by (simp add: str_fields_def vars_values_def)
  then have "any_value_matches lower crit (vars_values (h b)) =
      Inr (crit_matches lower crit (h b))"
    by (simp add: any_value_matches_strs list_ex_vars_values)
  with Cons show ?case
    by simp
qed

lemma matching_books_cases:
  "matching_books lower h crit bs = Inl AttributeError \<or>
   matching_books lower h crit bs =
     Inr (filter (\<lambda>book. crit_matches lower crit (h book)) bs)"
proof (induction bs)
  case Nil
  then show ?case by simp
next
  case (Cons b bs)
  from any_value_matches_cases [of lower crit "vars_values (h b)"] Cons
  show ?case
    by (auto simp: list_ex_vars_values)
qed

lemma search_loop_union:
  "\<forall>book\<in>set bs. str_fields (h book) \<Longrightarrow>
   search_loop lower h bs criterion results =
     Inr (results \<union> {book \<in> set bs. \<exists>crit\<in>set criterion. crit_matches lower crit (h book)})"
proof (induction criterion arbitrary: results)
  case Nil
  then show ?case by simp
next
  case (Cons crit rest)
  then show ?case
    by (auto simp: matching_books_filter)
qed

lemma search_loop_cases:
  "search_loop lower h bs criterion results = Inl AttributeError \<or>
   search_loop lower h bs criterion results =
     Inr (results \<union> {book \<in> set bs. \<exists>crit\<in>set criterion. crit_matches lower crit (h book)})"
proof (induction criterion arbitrary: results)
  case Nil
  then show ?case by simp
next
  case (Cons crit rest)
  from matching_books_cases [of lower h crit bs]
  show ?case
  proof
    assume "matching_books lower h crit bs = Inl AttributeError"
    then show ?thesis by simp
  next
    assume m: "matching_books lower h crit bs =
      Inr (filter (\<lambda>book. crit_matches lower crit (h book)) bs)"
    from Cons [of "results \<union> set (filter (\<lambda>book. crit_matches lower crit (h book)) bs)"]
    show ?thesis
    proof
      assume "search_loop lower h bs rest
          (results \<union> set (filter (\<lambda>book. crit_matches lower crit (h book)) bs)) =
        Inl AttributeError"
      with m show ?thesis by simp
    next
      assume "search_loop lower h bs rest
          (results \<union> set (filter (\<lambda>book. crit_matches lower crit (h book)) bs)) =
        Inr (results \<union> set (filter (\<lambda>book. crit_matches lower crit (h book)) bs) \<union>
          {book \<in> set bs. \<exists>crit\<in>set rest. crit_matches lower crit (h book)})"
      moreover have "results \<union> set (filter (\<lambda>book. crit_matches lower crit (h book)) bs) \<union>
          {book \<in> set bs. \<exists>crit\<in>set rest. crit_matches lower crit (h book)} =
        results \<union> {book \<in> set bs. \<exists>c\<in>set (crit # rest). crit_matches lower c (h book)}"
        by auto
      ultimately show ?thesis
        using m by simp
    qed
  qed
qed

lemma search_book_raises_or_union:
  "fst (search_book lower criterion s) = Inl AttributeError \<or>
   fst (search_book lower criterion s) =
     Inr {book \<in> set (books s). \<exists>crit\<in>set criterion. crit_matches lower crit (heap s book)}"
  using search_loop_cases [of lower "heap s" "books s" criterion "{}"]
  by (simp add: search_book_def)

lemma empty_crit_matches:
  assumes "str_fields book" and "lower [] = []"
  shows "crit_matches lower [] book"
proof -
  from assms(1) obtain t where "book_id book = PStr t"
    by (cases "book_id book") (simp_all add: str_fields_def is_str_def)
  with assms(2) show ?thesis
    by (simp add: crit_matches_def substring_of_def)
qed

lemma non_string_value_raises:
  "\<not> is_str v \<Longrightarrow> any_value_matches lower crit (v # vs) = Inl AttributeError"
  by (cases v) (simp_all add: is_str_def)

lemma matching_books_empty_crit:
  assumes "lower [] = []"
  shows "matching_books lower h [] bs = Inl AttributeError \<or>
         matching_books lower h [] bs = Inr bs"
proof (induction bs)
  case Nil
  then show ?case by simp
next
  case (Cons b bs)
  have "any_value_matches lower [] (vars_values (h b)) = Inl AttributeError \<or>
      any_value_matches lower [] (vars_values (h b)) = Inr True"
    using assms by (cases "book_id (h b)") (simp_all add: vars_values_def)
  with Cons show ?case
    by auto
qed

lemma search_loop_empty_crit:
  assumes "lower [] = []"
  shows "[] \<in> set criterion \<Longrightarrow>
         search_loop lower h bs criterion results = Inl AttributeError \<or>
         search_loop lower h bs criterion results = Inr (results \<union> set bs)"
proof (induction criterion arbitrary: results)
  case Nil
  then show ?case by simp
next
  case (Cons crit rest)
  show ?case
  proof (cases "crit = []")
    case True
    from matching_books_empty_crit [of lower h bs] assms
    have "matching_books lower h [] bs = Inl AttributeError \<or>
        matching_books lower h [] bs = Inr bs"
      by simp
    then show ?thesis
    proof
      assume "matching_books lower h [] bs = Inl AttributeError"
      with True show ?thesis by simp
    next
      assume m: "matching_books lower h [] bs = Inr bs"
      have "results \<union> set bs \<union>
          {book \<in> set bs. \<exists>c\<in>set rest. crit_matches lower c (h book)} = results \<union> set bs"
        by auto
      with search_loop_cases [of lower h bs rest "results \<union> set bs"] m True
      show ?thesis by auto
    qed
  next
    case False
    with Cons.prems have rest: "[] \<in> set rest"
      by simp
    from matching_books_cases [of lower h crit bs]
    show ?thesis
    proof
      assume "matching_books lower h crit bs = Inl AttributeError"
      then show ?thesis by simp
    next
      let ?hits = "filter (\<lambda>book. crit_matches lower crit (h book)) bs"
      assume m: "matching_books lower h crit bs = Inr ?hits"
      have "results \<union> set ?hits \<union> set bs = results \<union> set bs"
        by auto
      with Cons.IH [OF rest, of "results \<union> set ?hits"] m
      show ?thesis by auto
    qed
  qed
qed

text \<open>
  C4. For every store and every list of criteria, \<open>search_book\<close> raises
  \<open>AttributeError\<close> or returns the set of the books of the list that at least one
  criterion matches: the criterion is a case-insensitive substring of the identifier, the
  title, the author, the year or the status. On a store whose records hold strings in
  their five fields it returns this set, which is the union, over the criteria, of the
  sets of books each criterion matches.
\<close>

theorem search_book_union:
  "(fst (search_book lower criterion s) = Inl AttributeError \<or>
    fst (search_book lower criterion s) =
      Inr {book \<in> set (books s).
             \<exists>crit\<in>set criterion. crit_matches lower crit (heap s book)})
   \<and> ((\<forall>book\<in>set (books s). str_fields (heap s book)) \<longrightarrow>
        fst (search_book lower criterion s) =
          Inr {book \<in> set (books s).
                 \<exists>crit\<in>set criterion. crit_matches lower crit (heap s book)} \<and>
        fst (search_book lower criterion s) =
          Inr (\<Union>crit\<in>set criterion.
                 {book \<in> set (books s). crit_matches lower crit (heap s book)}))"
proof -
  have typed: "fst (search_book lower criterion s) =
      Inr {book \<in> set (books s).
             \<exists>crit\<in>set criterion. crit_matches lower crit (heap s book)}"
    if "\<forall>book\<in>set (books s). str_fields (heap s book)"
    using that by (simp add: search_book_def search_loop_union)
  have "{book \<in> set (books s).
         \<exists>crit\<in>set criterion. crit_matches lower crit (heap s book)} =
      (\<Union>crit\<in>set criterion.
         {book \<in> set (books s). crit_matches lower crit (heap s book)})"
    by blast
  with typed search_book_raises_or_union [of lower criterion s] show ?thesis
    by simp
qed

theorem search_book_union_witness:
  "fst (search_book ascii_lower [[100, 117, 110, 101], [111, 114, 119, 101, 108, 108]]
          two_books) = Inr {0, 1} \<and>
   {book \<in> set (books two_books).
      \<exists>crit\<in>set [[100, 117, 110, 101], [111, 114, 119, 101, 108, 108]].
        crit_matches ascii_lower crit (heap two_books book)} = {0, 1} \<and>
   fst (search_book ascii_lower [[66, 50]] two_books) = Inr {1} \<and>
   {book \<in> set (books two_books).
      \<exists>crit\<in>set [[66, 50]]. crit_matches ascii_lower crit (heap two_books book)} = {1} \<and>
   fst (search_book ascii_lower [[49, 57, 54, 53]] two_books) = Inr {0} \<and>
   {book \<in> set (books two_books).
      \<exists>crit\<in>set [[49, 57, 54, 53]]. crit_matches ascii_lower crit (heap two_books book)} = {0} \<and>
   fst (search_book ascii_lower [[1085, 1072, 1083, 1080, 1095]] two_books) = Inr {0, 1} \<and>
   {book \<in> set (books two_books).
      \<exists>crit\<in>set [[1085, 1072, 1083, 1080, 1095]].
        crit_matches ascii_lower crit (heap two_books book)} = {0, 1}"
proof -
  note defs = two_books_def two_books_heap_def book_dune_def book_farm_def
    vars_values_def status_initial_def
  note run = search_book_def defs ascii_lower_def sublist_code(3) insert_commute
  have typed: "\<forall>book\<in>set (books two_books). str_fields (heap two_books book)"
    by (simp add: defs str_fields_def is_str_def)
  note union = search_book_union [of ascii_lower _ two_books, THEN conjunct2, THEN mp,
      OF typed, THEN conjunct1]
  have r1: "fst (search_book ascii_lower
        [[100, 117, 110, 101], [111, 114, 119, 101, 108, 108]] two_books) = Inr {0, 1}"
    by (simp add: run)
  have r2: "fst (search_book ascii_lower [[66, 50]] two_books) = Inr {1}"
    by (simp add: run)
  have r3: "fst (search_book ascii_lower [[49, 57, 54, 53]] two_books) = Inr {0}"
    by (simp add: run)
  have r4: "fst (search_book ascii_lower [[1085, 1072, 1083, 1080, 1095]] two_books) =
      Inr {0, 1}"
    by (simp add: run)
  have s1: "{book \<in> set (books two_books).
      \<exists>crit\<in>set [[100, 117, 110, 101], [111, 114, 119, 101, 108, 108]].
        crit_matches ascii_lower crit (heap two_books book)} = {0, 1}"
    using union [of "[[100, 117, 110, 101], [111, 114, 119, 101, 108, 108]]"] r1 by simp
  have s2: "{book \<in> set (books two_books).
      \<exists>crit\<in>set [[66, 50]]. crit_matches ascii_lower crit (heap two_books book)} = {1}"
    using union [of "[[66, 50]]"] r2 by simp
  have s3: "{book \<in> set (books two_books).
      \<exists>crit\<in>set [[49, 57, 54, 53]]. crit_matches ascii_lower crit (heap two_books book)} = {0}"
    using union [of "[[49, 57, 54, 53]]"] r3 by simp
  have s4: "{book \<in> set (books two_books).
      \<exists>crit\<in>set [[1085, 1072, 1083, 1080, 1095]].
        crit_matches ascii_lower crit (heap two_books book)} = {0, 1}"
    using union [of "[[1085, 1072, 1083, 1080, 1095]]"] r4 by simp
  from r1 r2 r3 r4 s1 s2 s3 s4 show ?thesis
    by (simp only: simp_thms)
qed

text \<open>
  C4, as the specification states it, does not hold on every store. The constructor
  loads the file whose record has the number 1965 as its year; on that store the search for "zz" raises
  \<open>AttributeError\<close> and returns no set.
\<close>

theorem search_book_numeric_year_raises:
  "fst (Books_Library_init document_codec default_file_name numeric_year_file) = Inr () \<and>
   books numeric_year_store = [0] \<and>
   year (heap numeric_year_store 0) = PInt 1965 \<and>
   fst (search_book ascii_lower [[122, 122]] numeric_year_store) = Inl AttributeError"
  by (simp add: search_book_def numeric_year_store_def numeric_year_file_def
      Books_Library_init_def load_book_library_def Books_kwargs_def field_names_def
      k_id_def k_title_def k_author_def k_year_def k_status_def document_codec_def
      vars_values_def ascii_lower_def sublist_code(3) status_initial_def Let_def)

text \<open>
  C9. For every store, a list of criteria that contains the empty string gives the set
  of all books of the list or raises \<open>AttributeError\<close> (\<open>"".lower()\<close> is the empty
  string, a substring of every string); on a store whose records hold strings in their
  five fields it gives the set of all books. The empty list of criteria gives the empty
  set on every store.
\<close>

theorem search_book_empty_string:
  "(lower [] = [] \<and> [] \<in> set criterion \<longrightarrow>
      (fst (search_book lower criterion s) = Inl AttributeError \<or>
       fst (search_book lower criterion s) = Inr (set (books s))) \<and>
      ((\<forall>book\<in>set (books s). str_fields (heap s book)) \<longrightarrow>
         fst (search_book lower criterion s) = Inr (set (books s))))
   \<and> fst (search_book lower [] s) = Inr {}"
proof -
  have general: "fst (search_book lower criterion s) = Inl AttributeError \<or>
       fst (search_book lower criterion s) = Inr (set (books s))"
    if "lower [] = []" "[] \<in> set criterion"
    using search_loop_empty_crit [of lower criterion "heap s" "books s" "{}"] that
    by (simp add: search_book_def)
  have typed: "fst (search_book lower criterion s) = Inr (set (books s))"
    if "lower [] = []" "[] \<in> set criterion"
      "\<forall>book\<in>set (books s). str_fields (heap s book)"
  proof -
    have "\<forall>book\<in>set (books s). crit_matches lower [] (heap s book)"
      using that(1,3) by (simp add: empty_crit_matches)
    with that(2) have "{book \<in> set (books s).
        \<exists>crit\<in>set criterion. crit_matches lower crit (heap s book)} = set (books s)"
      by blast
    with that(3) show ?thesis
      by (simp add: search_book_def search_loop_union)
  qed
  have "fst (search_book lower [] s) = Inr {}"
    by (simp add: search_book_def)
  with general typed show ?thesis
    by blast
qed

theorem search_book_empty_string_witness:
  "fst (search_book ascii_lower [[122, 122], []] two_books) = Inr {0, 1} \<and>
   fst (search_book ascii_lower [] two_books) = Inr {}"
proof -
  note defs = two_books_def two_books_heap_def book_dune_def book_farm_def
    str_fields_def is_str_def
  have pre: "ascii_lower [] = [] \<and> [] \<in> set [[122, 122], []]"
    by (simp add: ascii_lower_def)
  have typed: "\<forall>book\<in>set (books two_books). str_fields (heap two_books book)"
    by (simp add: defs)
  have "fst (search_book ascii_lower [[122, 122], []] two_books) = Inr (set (books two_books))"
    using search_book_empty_string [of ascii_lower "[[122, 122], []]" two_books,
        THEN conjunct1, THEN mp, OF pre, THEN conjunct2, THEN mp, OF typed] .
  moreover have "set (books two_books) = {0, 1}"
    by (simp add: two_books_def)
  moreover have "fst (search_book ascii_lower [] two_books) = Inr {}"
    using search_book_empty_string [of ascii_lower "[]" two_books, THEN conjunct2] .
  ultimately show ?thesis
    by (simp only: simp_thms)
qed

text \<open>
  C9, as the specification states it, does not hold on every store. On the store
  loaded from the file whose record has the number 1965 as its year, the criteria "zz" and "" raise
  \<open>AttributeError\<close> where the set of all records, which has one element, is expected.
\<close>

theorem search_book_empty_string_raises:
  "fst (search_book ascii_lower [[122, 122], []] numeric_year_store) = Inl AttributeError \<and>
   set (books numeric_year_store) = {0}"
  by (simp add: search_book_def numeric_year_store_def numeric_year_file_def
      Books_Library_init_def load_book_library_def Books_kwargs_def field_names_def
      k_id_def k_title_def k_author_def k_year_def k_status_def document_codec_def
      vars_values_def ascii_lower_def sublist_code(3) status_initial_def Let_def)


subsection \<open>\<open>save_book_database\<close> and \<open>load_book_library\<close>\<close>

lemma Books_init_book_dict: "Books_init (book_dict b) = Inr b"
  by (simp add: book_dict_def Books_kwargs_def field_names_def k_id_def k_title_def
      k_author_def k_year_def k_status_def)

lemma load_books_of_dicts:
  "fst (load_books (map book_dict bs) s) = Inr [next_ref s..<next_ref s + length bs] \<and>
   map (heap (snd (load_books (map book_dict bs) s))) [next_ref s..<next_ref s + length bs] = bs \<and>
   (\<forall>r<next_ref s. heap (snd (load_books (map book_dict bs) s)) r = heap s r) \<and>
   next_ref (snd (load_books (map book_dict bs) s)) = next_ref s + length bs \<and>
   books (snd (load_books (map book_dict bs) s)) = books s \<and>
   fs (snd (load_books (map book_dict bs) s)) = fs s \<and>
   stdout (snd (load_books (map book_dict bs) s)) = stdout s"
proof (induction bs arbitrary: s)
  case Nil
  then show ?case by simp
next
  case (Cons b bs)
  let ?s1 = "s\<lparr>heap := (heap s)(next_ref s := b), next_ref := Suc (next_ref s)\<rparr>"
  let ?r = "load_books (map book_dict bs) ?s1"
  have step: "load_books (map book_dict (b # bs)) s =
      (case ?r of (Inl e, s2) \<Rightarrow> (Inl e, s2) | (Inr rs, s2) \<Rightarrow> (Inr (next_ref s # rs), s2))"
    by (simp add: Books_init_book_dict Let_def)
  note ih = Cons.IH [of ?s1]
  from ih have res: "?r = (Inr [Suc (next_ref s)..<Suc (next_ref s) + length bs], snd ?r)"
    by (cases ?r) simp
  have whole: "load_books (map book_dict (b # bs)) s =
      (Inr (next_ref s # [Suc (next_ref s)..<Suc (next_ref s) + length bs]), snd ?r)"
    by (subst step, subst res) simp
  have upt: "[next_ref s..<next_ref s + length (b # bs)] =
      next_ref s # [Suc (next_ref s)..<Suc (next_ref s) + length bs]"
    by (subst upt_rec) simp
  have first: "heap (snd ?r) (next_ref s) = b"
    using ih by simp
  show ?case
    unfolding whole upt using ih first by simp
qed

text \<open>
  C2. Saving a collection and loading the file just written gives as many new objects as
  the collection has records, in the same order, each with the five field values of the
  record it was saved from, and prints nothing, provided the file is written (the path
  opens and the encoder gives a content) and the codec decodes that content to the value
  that was encoded. This holds for every collection, the non-empty ones with string
  fields among them.
\<close>

theorem save_then_load:
  assumes "write_error s (file_name s) = None"
    and "json_dump c (book_data s) = Inr content"
    and "json_load c content = Inr (book_data s)"
  shows "let saved = save_book_database c s;
             loaded = load_book_library c (snd saved);
             rs = [next_ref s..<next_ref s + length (books s)]
         in fst saved = Inr () \<and>
            fst loaded = Inr rs \<and>
            map (heap (snd loaded)) rs = map (heap s) (books s) \<and>
            stdout (snd loaded) = stdout s"
proof -
  let ?s1 = "s\<lparr>fs := (fs s)(file_name s \<mapsto> content)\<rparr>"
  let ?bs = "map (heap s) (books s)"
  have saved: "save_book_database c s = (Inr (), ?s1)"
    using assms(1,2) by (simp add: save_book_database_def)
  have items: "book_data s = PList (map book_dict ?bs)"
    by (simp add: book_data_def comp_def)
  have "load_book_library c ?s1 = load_books (map book_dict ?bs) ?s1"
    using assms(3) by (simp add: load_book_library_def items)
  then show ?thesis
    using load_books_of_dicts [of ?bs ?s1] saved by (simp add: Let_def)
qed

theorem save_then_load_witness:
  "fst (save_book_database document_codec two_books) = Inr () \<and>
   fst (load_book_library document_codec (snd (save_book_database document_codec two_books))) =
     Inr [2, 3] \<and>
   map (heap (snd (load_book_library document_codec
                     (snd (save_book_database document_codec two_books))))) [2, 3] =
     [book_dune, book_farm]"
proof -
  note defs = two_books_def two_books_heap_def book_dune_def book_farm_def
  have opens: "write_error two_books (file_name two_books) = None"
    by (simp add: two_books_def)
  have dump: "json_dump document_codec (book_data two_books) = Inr (Some (book_data two_books))"
    by (simp add: document_codec_def book_data_def book_dict_def defs surrogate_def
        status_initial_def k_id_def k_title_def k_author_def k_year_def k_status_def)
  have load: "json_load document_codec (Some (book_data two_books)) = Inr (book_data two_books)"
    by (simp add: document_codec_def)
  have refs: "[next_ref two_books..<next_ref two_books + length (books two_books)] = [2, 3]"
    by (simp add: two_books_def upt_rec)
  have objs: "map (heap two_books) (books two_books) = [book_dune, book_farm]"
    by (simp add: two_books_def two_books_heap_def)
  show ?thesis
    using save_then_load [OF opens dump load] unfolding Let_def refs objs by simp
qed

lemma load_book_library_absent:
  "fs s (file_name s) = None \<Longrightarrow> load_book_library c s = (Inr [], s)"
  by (simp add: load_book_library_def)

lemma load_book_library_not_json:
  "fs s (file_name s) = Some content \<Longrightarrow> json_load c content = Inl JSONDecodeError \<Longrightarrow>
   load_book_library c s = (Inr [], s\<lparr>stdout := stdout s @ [msg_decode_error]\<rparr>)"
  by (simp add: load_book_library_def)

lemma load_book_library_not_iterable:
  "fs s (file_name s) = Some content \<Longrightarrow> json_load c content = Inr v \<Longrightarrow>
   py_iter v = Inl e \<Longrightarrow> load_book_library c s = (Inl e, s)"
  by (simp add: load_book_library_def)

text \<open>
  C7. A file that holds \<open>[{"id": "a1", "title": "Dune"}]\<close>, valid JSON that is not a
  list of five-field records: \<open>load_book_library\<close> raises \<open>TypeError\<close>, prints nothing and
  returns no collection. (A file that is absent gives the empty collection without a
  message, \<open>load_book_library_absent\<close>; a content the decoder rejects gives the
  diagnostic and the empty collection, \<open>load_book_library_not_json\<close>.)
\<close>

theorem load_incomplete_record_raises:
  "load_book_library document_codec incomplete_record_store =
     (Inl TypeError, incomplete_record_store)"
  by (simp add: load_book_library_def incomplete_record_store_def document_codec_def
      Books_kwargs_def k_id_def k_title_def k_author_def k_year_def k_status_def)

end
